theory Spec2Isabelle
  imports Complex_Main "HOL-Library.Log_Nat"
begin

section \<open>JavaScript values used by the services\<close>

text \<open>
  Amounts travel through the services as decimal strings (\<^verbatim>\<open>'0'\<close>, \<^verbatim>\<open>'0.01'\<close>) and are
  read with \<^verbatim>\<open>parseFloat\<close> wherever the code computes with them. An amount is
  represented here by the JavaScript number that \<^verbatim>\<open>parseFloat\<close> reads from the string:
  a finite value, an infinity, or \<^verbatim>\<open>NaN\<close> (what \<^verbatim>\<open>parseFloat\<close> gives for a string with no
  numeric prefix). The string \<^verbatim>\<open>'0'\<close> is \<open>Num 0\<close>. Every string the pool stores is either
  \<^verbatim>\<open>'0'\<close> or the \<^verbatim>\<open>toString\<close> of a number, and \<^verbatim>\<open>parseFloat\<close> reads such a string back to
  the same number.
\<close>

datatype jsnum = Num rat | PosInf | NegInf | NaN

text \<open>
  A JavaScript number is an IEEE 754 double: \<open>Num q\<close> is the finite number with the
  value \<open>q\<close>, which is \<open>m * 2^j\<close> for whole numbers \<open>m\<close> and \<open>j\<close> with \<open>\<bar>m\<bar> < 2^53\<close> and
  \<open>-1074 \<le> j \<le> 971\<close>. The two zeros of the format are one value here: the services
  compare, add, subtract, multiply, take a maximum and print, and none of these tells
  the zeros apart. What an operation computes is the exact result, rounded to the
  nearest double, to the one with the even significand when two are equally near,
  and to an infinity when the rounded value is beyond the largest double,
  \<open>(2^53 - 1) * 2^971\<close>.

  \<open>ilog2 a\<close> is the whole number \<open>e\<close> with \<open>2^e \<le> a < 2^(e+1)\<close> for a positive \<open>a\<close>:
  \<open>bitlen\<close> counts the binary digits of the numerator and of the denominator, which
  leaves two candidates.
\<close>

definition ilog2 :: "rat \<Rightarrow> int" where
  "ilog2 a = (let (n, d) = quotient_of a; k = bitlen n - bitlen d
              in if 2 powi k \<le> a then k else k - 1)"

definition roundHalfEven :: "rat \<Rightarrow> int" where
  "roundHalfEven v =
    (let f = \<lfloor>v\<rfloor>; r = v - of_int f
     in if r < 1/2 then f else if 1/2 < r then f + 1 else if even f then f else f + 1)"

text \<open>The doubles around \<open>q\<close> are the multiples of \<open>2^p\<close>, where \<open>p\<close> is \<open>ilog2 \<bar>q\<bar> - 52\<close> and
  at least \<open>-1074\<close> (the subnormal numbers); \<open>q\<close> is rounded to the multiple \<open>n * 2^p\<close>, which
  is a double unless \<open>p\<close> is above 971 or \<open>p\<close> is 971 and \<open>n\<close> has reached \<open>2^53\<close>.\<close>

definition roundDouble :: "rat \<Rightarrow> jsnum" where
  "roundDouble q =
    (if q = 0 then Num 0
     else (let p = max (ilog2 \<bar>q\<bar> - 52) (- 1074);
               n = roundHalfEven (q / 2 powi p)
           in if 971 < p \<or> (p = 971 \<and> 2 ^ 53 \<le> \<bar>n\<bar>)
              then (if 0 < q then PosInf else NegInf)
              else Num (of_int n * 2 powi p)))"


text \<open>\<^verbatim>\<open>a + b\<close>, \<^verbatim>\<open>a - b\<close>, \<^verbatim>\<open>a * b\<close> and \<^verbatim>\<open>Math.max(0, a)\<close> on JavaScript numbers.\<close>

fun js_add :: "jsnum \<Rightarrow> jsnum \<Rightarrow> jsnum" where
  "js_add (Num a) (Num b) = roundDouble (a + b)"
| "js_add NaN b = NaN"
| "js_add a NaN = NaN"
| "js_add PosInf NegInf = NaN"
| "js_add NegInf PosInf = NaN"
| "js_add PosInf b = PosInf"
| "js_add NegInf b = NegInf"
| "js_add a PosInf = PosInf"
| "js_add a NegInf = NegInf"

fun js_neg :: "jsnum \<Rightarrow> jsnum" where
  "js_neg (Num a) = Num (- a)"
| "js_neg PosInf = NegInf"
| "js_neg NegInf = PosInf"
| "js_neg NaN = NaN"

definition js_sub :: "jsnum \<Rightarrow> jsnum \<Rightarrow> jsnum" where
  "js_sub a b = js_add a (js_neg b)"

fun js_sign :: "jsnum \<Rightarrow> int" where
  "js_sign (Num a) = (if a = 0 then 0 else if 0 < a then 1 else - 1)"
| "js_sign PosInf = 1"
| "js_sign NegInf = - 1"
| "js_sign NaN = 0"

fun js_mul :: "jsnum \<Rightarrow> jsnum \<Rightarrow> jsnum" where
  "js_mul (Num a) (Num b) = roundDouble (a * b)"
| "js_mul NaN b = NaN"
| "js_mul a NaN = NaN"
| "js_mul a b =
    (if js_sign a * js_sign b = 0 then NaN
     else if 0 < js_sign a * js_sign b then PosInf else NegInf)"

fun js_max0 :: "jsnum \<Rightarrow> jsnum" where
  "js_max0 (Num a) = Num (max 0 a)"
| "js_max0 PosInf = PosInf"
| "js_max0 NegInf = Num 0"
| "js_max0 NaN = NaN"

text \<open>\<^verbatim>\<open>v <= 0\<close>, \<^verbatim>\<open>v < 0\<close> and \<^verbatim>\<open>v > 0\<close> on a JavaScript number: every comparison with
  \<^verbatim>\<open>NaN\<close> is false.\<close>

fun js_le0 :: "jsnum \<Rightarrow> bool" where
  "js_le0 (Num q) = (q \<le> 0)"
| "js_le0 PosInf = False"
| "js_le0 NegInf = True"
| "js_le0 NaN = False"

fun js_lt0 :: "jsnum \<Rightarrow> bool" where
  "js_lt0 (Num q) = (q < 0)"
| "js_lt0 PosInf = False"
| "js_lt0 NegInf = True"
| "js_lt0 NaN = False"

fun js_gt0 :: "jsnum \<Rightarrow> bool" where
  "js_gt0 (Num q) = (0 < q)"
| "js_gt0 PosInf = True"
| "js_gt0 NegInf = False"
| "js_gt0 NaN = False"

text \<open>What a call does: it returns a value, or it throws. \<^verbatim>\<open>ethers.getAddress\<close> throws
  on a string that is not an address; reading a property of \<^verbatim>\<open>undefined\<close> throws a
  \<^verbatim>\<open>TypeError\<close>.\<close>

datatype exn = BadAddress | TypeError

datatype 'a outcome = Returned 'a | Threw exn

section \<open>The game engine (services/lockBlock.js)\<close>

record Position =
  pos_x :: jsnum
  pos_y :: jsnum

record Player =
  eoa :: string
  position :: Position
  lives :: jsnum
  score :: jsnum

record Chunk =
  chunk_id :: nat
  chunk_name :: string
  chunk_difficulty :: nat
  obstacles :: "string list"
  collectibles :: "string list"
  completed :: bool

datatype GameResult = Win | Lose

record GameState =
  player :: Player
  chunks :: "Chunk list"
  currentChunk :: nat
  isGameOver :: bool
  gameResult :: "GameResult option"
  startTime :: int
  endTime :: "int option"
  rewardPool_totalAmount :: jsnum
  entryDeposit :: jsnum

text \<open>Coordinates, distances, lives, scores and values are JavaScript numbers, and the
  engine computes with them in the arithmetic of these numbers. \<open>currentChunk\<close> is an
  index. The two amounts of a game state are only carried along.\<close>

text \<open>An action is \<^verbatim>\<open>{ type, data }\<close>; the fields of \<^verbatim>\<open>data\<close> that the engine reads are
  optional (\<open>None\<close> is \<^verbatim>\<open>undefined\<close>), and so is \<^verbatim>\<open>data\<close> itself.\<close>

record ActionData =
  data_direction :: "string option"
  data_distance :: "jsnum option"
  data_objectType :: "string option"
  data_value :: "jsnum option"

record Action =
  action_type :: string
  action_data :: "ActionData option"

datatype GameError = GameOver | NotOwner | InvalidAction

fun error_message :: "GameError \<Rightarrow> string" where
  "error_message GameOver = ''Game is already over''"
| "error_message NotOwner = ''Not your game''"
| "error_message InvalidAction = ''Invalid action type''"

definition generateInitialChunks :: "Chunk list" where
  "generateInitialChunks =
    [ \<lparr> chunk_id = 0, chunk_name = ''Tutorial Chunk'', chunk_difficulty = 1,
        obstacles = [''pit'', ''spike''],
        collectibles = [''coin'', ''powerup''], completed = False \<rparr>,
      \<lparr> chunk_id = 1, chunk_name = ''Forest Chunk'', chunk_difficulty = 2,
        obstacles = [''pit'', ''spike'', ''enemy''],
        collectibles = [''coin'', ''gem''], completed = False \<rparr>,
      \<lparr> chunk_id = 2, chunk_name = ''Mountain Chunk'', chunk_difficulty = 3,
        obstacles = [''pit'', ''spike'', ''enemy'', ''moving_platform''],
        collectibles = [''coin'', ''gem'', ''treasure''], completed = False \<rparr> ]"

text \<open>\<open>getAddress\<close> is \<^verbatim>\<open>ethers.getAddress\<close>, a function of the imported library: it
  returns the checksum form of an address and throws (\<open>None\<close>) on anything else. It is
  a parameter of every function that calls it. \<open>now\<close> is the value of \<^verbatim>\<open>Date.now()\<close> at
  the call. The default values of the last two parameters of \<^verbatim>\<open>createGame\<close> are left to
  the caller.\<close>

definition createGame ::
  "(string \<Rightarrow> string option) \<Rightarrow> int \<Rightarrow> string \<Rightarrow> jsnum \<Rightarrow> jsnum \<Rightarrow> GameState outcome" where
  "createGame getAddress now playerEoa entryDeposit' currentPoolAmount =
    (case getAddress playerEoa of
       None \<Rightarrow> Threw BadAddress
     | Some formattedPlayerEoa \<Rightarrow>
         Returned
           \<lparr> player = \<lparr> eoa = formattedPlayerEoa,
                        position = \<lparr> pos_x = Num 0, pos_y = Num 0 \<rparr>,
                        lives = Num 3, score = Num 0 \<rparr>,
             chunks = generateInitialChunks,
             currentChunk = 0,
             isGameOver = False,
             gameResult = None,
             startTime = now,
             endTime = None,
             rewardPool_totalAmount = currentPoolAmount,
             entryDeposit = entryDeposit' \<rparr>)"

text \<open>\<^verbatim>\<open>const { direction, distance = 1 } = moveData\<close> throws a \<^verbatim>\<open>TypeError\<close> when
  \<^verbatim>\<open>moveData\<close> is \<^verbatim>\<open>undefined\<close>; a direction that is none of the four cases of the
  \<^verbatim>\<open>switch\<close> leaves the position as it is.\<close>

definition processMovement :: "GameState \<Rightarrow> ActionData option \<Rightarrow> GameState outcome" where
  "processMovement gameState moveData =
    (case moveData of
       None \<Rightarrow> Threw TypeError
     | Some d \<Rightarrow>
        (let direction = data_direction d;
             distance = (case data_distance d of None \<Rightarrow> Num 1 | Some n \<Rightarrow> n);
             pos = position (player gameState);
             newPosition =
               (if direction = Some ''left''
                  then pos\<lparr>pos_x := js_max0 (js_sub (pos_x pos) distance)\<rparr>
                else if direction = Some ''right''
                  then pos\<lparr>pos_x := js_add (pos_x pos) distance\<rparr>
                else if direction = Some ''up''
                  then pos\<lparr>pos_y := js_max0 (js_sub (pos_y pos) distance)\<rparr>
                else if direction = Some ''down''
                  then pos\<lparr>pos_y := js_add (pos_y pos) distance\<rparr>
                else pos)
         in Returned (gameState\<lparr>player := (player gameState)\<lparr>position := newPosition\<rparr>\<rparr>)))"

definition processJump :: "GameState \<Rightarrow> ActionData option \<Rightarrow> GameState outcome" where
  "processJump gameState jumpData =
    processMovement gameState
      (Some \<lparr> data_direction = Some ''up'', data_distance = Some (Num 2),
              data_objectType = None, data_value = None \<rparr>)"

definition processInteraction :: "GameState \<Rightarrow> ActionData option \<Rightarrow> GameState outcome" where
  "processInteraction gameState interactionData =
    (case interactionData of
       None \<Rightarrow> Threw TypeError
     | Some d \<Rightarrow>
        (let objectType = data_objectType d;
             v = (case data_value d of None \<Rightarrow> Num 10 | Some w \<Rightarrow> w);
             p = player gameState;
             newScore =
               (if objectType = Some ''coin'' then js_add (score p) v
                else if objectType = Some ''gem'' then js_add (score p) (js_mul v (Num 2))
                else if objectType = Some ''treasure'' then js_add (score p) (js_mul v (Num 5))
                else if objectType = Some ''powerup'' then js_add (score p) v
                else score p)
         in Returned (gameState\<lparr>player := p\<lparr>score := newScore\<rparr>\<rparr>)))"

text \<open>\<^verbatim>\<open>updatedChunks[gameState.currentChunk].completed = true\<close> throws a \<^verbatim>\<open>TypeError\<close> when
  the index is not in the array.\<close>

definition processChunkCompletion :: "GameState \<Rightarrow> GameState outcome" where
  "processChunkCompletion gameState =
    (let cur = currentChunk gameState in
     if cur < length (chunks gameState) then
       (let updatedChunks =
              (chunks gameState)[cur := (chunks gameState ! cur)\<lparr>completed := True\<rparr>];
            nextChunk = cur + 1;
            isGameComplete = (nextChunk \<ge> length updatedChunks)
        in Returned (gameState
             \<lparr> player := (player gameState)
                 \<lparr>score := js_add (score (player gameState)) (Num 100)\<rparr>,
               chunks := updatedChunks,
               currentChunk := (if isGameComplete then cur else nextChunk) \<rparr>))
     else Threw TypeError)"

definition processLifeLoss :: "GameState \<Rightarrow> GameState" where
  "processLifeLoss gameState =
    gameState\<lparr>player := (player gameState)
      \<lparr> lives := js_max0 (js_sub (lives (player gameState)) (Num 1)),
        position := \<lparr> pos_x = Num 0, pos_y = Num 0 \<rparr> \<rparr>\<rparr>"

text \<open>The two checks are two separate \<^verbatim>\<open>if\<close> statements, the loss check first; each
  assigns \<^verbatim>\<open>isGameOver\<close> and \<^verbatim>\<open>gameResult\<close>, so the second assignment is the one that
  stays when both conditions hold.\<close>

definition checkGameOverConditions :: "int \<Rightarrow> GameState \<Rightarrow> GameState" where
  "checkGameOverConditions now gameState =
    (let over1 = js_le0 (lives (player gameState));
         result1 = (if js_le0 (lives (player gameState)) then Some Lose else None);
         allChunksCompleted = list_all completed (chunks gameState);
         over2 = (if allChunksCompleted then True else over1);
         result2 = (if allChunksCompleted then Some Win else result1)
     in gameState
          \<lparr> isGameOver := over2,
            gameResult := result2,
            endTime := (if over2 then Some now else None) \<rparr>)"

text \<open>
  \<open>processAction\<close> returns the result object and, as second component, the value of the
  object that was passed in as \<^verbatim>\<open>gameState\<close> once the call is over: the copies made
  with the spread operator are shallow, so \<^verbatim>\<open>interact\<close> writes the new score into the
  player object that the input shares, and \<^verbatim>\<open>complete_chunk\<close> sets the flag in the chunk
  object that the input shares. The other branches write to fresh objects only.
\<close>

definition processAction ::
  "(string \<Rightarrow> string option) \<Rightarrow> int \<Rightarrow> GameState \<Rightarrow> Action \<Rightarrow> string
     \<Rightarrow> (GameError + GameState) outcome \<times> GameState" where
  "processAction getAddress now gameState action playerEoa =
    (case getAddress playerEoa of
       None \<Rightarrow> (Threw BadAddress, gameState)
     | Some formattedPlayerEoa \<Rightarrow>
         if isGameOver gameState then (Returned (Inl GameOver), gameState)
         else if eoa (player gameState) \<noteq> formattedPlayerEoa
           then (Returned (Inl NotOwner), gameState)
         else if action_type action = ''move'' then
           (case processMovement gameState (action_data action) of
              Threw e \<Rightarrow> (Threw e, gameState)
            | Returned u \<Rightarrow> (Returned (Inr (checkGameOverConditions now u)), gameState))
         else if action_type action = ''jump'' then
           (case processJump gameState (action_data action) of
              Threw e \<Rightarrow> (Threw e, gameState)
            | Returned u \<Rightarrow> (Returned (Inr (checkGameOverConditions now u)), gameState))
         else if action_type action = ''interact'' then
           (case processInteraction gameState (action_data action) of
              Threw e \<Rightarrow> (Threw e, gameState)
            | Returned u \<Rightarrow>
                (Returned (Inr (checkGameOverConditions now u)),
                 gameState\<lparr>player := player u\<rparr>))
         else if action_type action = ''complete_chunk'' then
           (case processChunkCompletion gameState of
              Threw e \<Rightarrow> (Threw e, gameState)
            | Returned u \<Rightarrow>
                (Returned (Inr (checkGameOverConditions now u)),
                 gameState\<lparr>chunks := chunks u\<rparr>))
         else if action_type action = ''lose_life'' then
           (Returned (Inr (checkGameOverConditions now (processLifeLoss gameState))), gameState)
         else (Returned (Inl InvalidAction), gameState))"

text \<open>A room keeps the state that \<open>processAction\<close> returns and applies the next action
  of its player to it (\<^verbatim>\<open>processPlayerAction\<close>); \<open>applyActions\<close> does that for a list of
  actions, each with the time of its call, and stops at the first call that does not
  return a state.\<close>

fun applyActions ::
  "(string \<Rightarrow> string option) \<Rightarrow> GameState \<Rightarrow> (int \<times> Action) list \<Rightarrow> string
     \<Rightarrow> (GameError + GameState) outcome" where
  "applyActions getAddress gameState [] playerEoa = Returned (Inr gameState)"
| "applyActions getAddress gameState ((now, a) # rest) playerEoa =
    (case fst (processAction getAddress now gameState a playerEoa) of
       Returned (Inr g') \<Rightarrow> applyActions getAddress g' rest playerEoa
     | Returned (Inl e) \<Rightarrow> Returned (Inl e)
     | Threw e \<Rightarrow> Threw e)"

section \<open>The reward pool (services/rewardPool.js)\<close>

record RewardPool =
  totalAmount :: jsnum
  totalGames :: nat
  totalWins :: nat
  totalLosses :: nat
  lastUpdated :: int

text \<open>The module starts with this pool; \<open>now\<close> is the time the module is loaded.\<close>

definition globalRewardPool :: "int \<Rightarrow> RewardPool" where
  "globalRewardPool now =
    \<lparr> totalAmount = Num 0, totalGames = 0, totalWins = 0, totalLosses = 0,
      lastUpdated = now \<rparr>"

definition getRewardPool :: "RewardPool \<Rightarrow> RewardPool" where
  "getRewardPool pool = pool"

text \<open>
  \<^verbatim>\<open>addToRewardPool\<close> adds two numbers read by \<^verbatim>\<open>parseFloat\<close> with the \<^verbatim>\<open>+\<close> of JavaScript
  numbers. That addition is the parameter \<open>fadd\<close>, and the one of the language is
  \<open>js_add\<close>: what is proved for every \<open>fadd\<close> holds for \<open>js_add\<close>, and what depends on the
  rounding is proved for \<open>js_add\<close>. The functions return the result object and the pool
  after the call.
\<close>

record AddResult =
  add_newTotal :: jsnum
  addedAmount :: jsnum

definition addToRewardPool ::
  "(jsnum \<Rightarrow> jsnum \<Rightarrow> jsnum) \<Rightarrow> int \<Rightarrow> jsnum \<Rightarrow> RewardPool \<Rightarrow> AddResult \<times> RewardPool" where
  "addToRewardPool fadd now amount pool =
    (let currentAmount = totalAmount pool;
         addAmount = amount;
         pool' = pool
           \<lparr> totalAmount := fadd currentAmount addAmount,
             totalLosses := totalLosses pool + 1,
             totalGames := totalGames pool + 1,
             lastUpdated := now \<rparr>
     in (\<lparr> add_newTotal = totalAmount pool', addedAmount = amount \<rparr>, pool'))"

datatype PoolError = EmptyPool

record WithdrawResult =
  withdrawnAmount :: jsnum
  withdraw_newTotal :: jsnum

definition withdrawFromRewardPool ::
  "int \<Rightarrow> RewardPool \<Rightarrow> (PoolError + WithdrawResult) \<times> RewardPool" where
  "withdrawFromRewardPool now pool =
    (let currentAmount = totalAmount pool in
     if js_le0 currentAmount then (Inl EmptyPool, pool)
     else
       (Inr \<lparr> withdrawnAmount = totalAmount pool, withdraw_newTotal = Num 0 \<rparr>,
        pool\<lparr> totalAmount := Num 0,
              totalWins := totalWins pool + 1,
              totalGames := totalGames pool + 1,
              lastUpdated := now \<rparr>))"

text \<open>\<open>resetRewardPool\<close> returns the previous amount and the new pool.\<close>

definition resetRewardPool :: "int \<Rightarrow> RewardPool \<Rightarrow> jsnum \<times> RewardPool" where
  "resetRewardPool now pool =
    (totalAmount pool,
     \<lparr> totalAmount = Num 0, totalGames = 0, totalWins = 0, totalLosses = 0,
       lastUpdated = now \<rparr>)"

datatype DepositError = InvalidEntryDeposit

datatype DepositOk = FreeGame | DepositValidated

definition validateEntryDeposit :: "string \<Rightarrow> jsnum \<Rightarrow> DepositError + DepositOk" where
  "validateEntryDeposit playerEoa entryDeposit' =
    (let depositAmount = entryDeposit' in
     if js_lt0 depositAmount then Inl InvalidEntryDeposit
     else if depositAmount = Num 0 then Inr FreeGame
     else Inr DepositValidated)"

text \<open>The operations that change the pool, each with the time of its call, and the pool
  after a list of them.\<close>

datatype PoolOp = Deposit int jsnum | Withdraw int | Reset int

fun applyPoolOp :: "(jsnum \<Rightarrow> jsnum \<Rightarrow> jsnum) \<Rightarrow> PoolOp \<Rightarrow> RewardPool \<Rightarrow> RewardPool" where
  "applyPoolOp fadd (Deposit now amount) pool = snd (addToRewardPool fadd now amount pool)"
| "applyPoolOp fadd (Withdraw now) pool = snd (withdrawFromRewardPool now pool)"
| "applyPoolOp fadd (Reset now) pool = snd (resetRewardPool now pool)"

fun applyPoolOps :: "(jsnum \<Rightarrow> jsnum \<Rightarrow> jsnum) \<Rightarrow> PoolOp list \<Rightarrow> RewardPool \<Rightarrow> RewardPool" where
  "applyPoolOps fadd [] pool = pool"
| "applyPoolOps fadd (op # ops) pool = applyPoolOps fadd ops (applyPoolOp fadd op pool)"

section \<open>The room manager (services/roomManager.js)\<close>

record RewardInfo =
  currentPoolAmount :: jsnum
  ri_entryDeposit :: jsnum
  potentialWinAmount :: jsnum
  riskAmount :: jsnum
  poolAfterLoss :: jsnum

text \<open>A connection is the WebSocket handle, here a number, with its role.\<close>

record Room =
  room_id :: string
  room_player_eoa :: "string option"
  room_player_entryDeposit :: jsnum
  connections :: "string \<rightharpoonup> (nat \<times> string)"
  room_gameState :: "GameState option"
  isReady :: bool
  gameStarted :: bool
  room_difficulty :: string
  rewardInfo :: RewardInfo
  createdAt :: int

record RoomManager =
  rooms :: "string \<rightharpoonup> Room"
  addressToRoom :: "string \<rightharpoonup> string"

definition createRoomManager :: RoomManager where
  "createRoomManager = \<lparr> rooms = Map.empty, addressToRoom = Map.empty \<rparr>"

datatype RoomError = AlreadyInRoom | RoomNotFound | RoomOccupied | DepositRejected DepositError

fun room_error_message :: "RoomError \<Rightarrow> string" where
  "room_error_message AlreadyInRoom = ''Player already in another room''"
| "room_error_message RoomNotFound = ''Room not found''"
| "room_error_message RoomOccupied = ''Room is already occupied''"
| "room_error_message (DepositRejected InvalidEntryDeposit) = ''Invalid entry deposit amount''"

record JoinResult =
  join_roomId :: string
  join_role :: string
  isRoomReady :: bool
  join_entryDeposit :: jsnum
  join_rewardInfo :: RewardInfo

text \<open>\<^verbatim>\<open>if (room.player.eoa)\<close>: \<^verbatim>\<open>null\<close> and the empty string are falsy.\<close>

fun truthy :: "string option \<Rightarrow> bool" where
  "truthy None = False"
| "truthy (Some s) = (s \<noteq> [])"

text \<open>\<open>joinRoom\<close> returns the result object and the manager after the call.\<close>

definition joinRoom ::
  "(string \<Rightarrow> string option) \<Rightarrow> string \<Rightarrow> string \<Rightarrow> nat \<Rightarrow> RoomManager
     \<Rightarrow> (RoomError + JoinResult) outcome \<times> RoomManager" where
  "joinRoom getAddress roomId eoa' ws m =
    (case getAddress eoa' of
       None \<Rightarrow> (Threw BadAddress, m)
     | Some formattedEoa \<Rightarrow>
         if addressToRoom m formattedEoa \<noteq> None then (Returned (Inl AlreadyInRoom), m)
         else
           (case rooms m roomId of
              None \<Rightarrow> (Returned (Inl RoomNotFound), m)
            | Some room \<Rightarrow>
                if truthy (room_player_eoa room) then (Returned (Inl RoomOccupied), m)
                else
                  (case validateEntryDeposit formattedEoa (room_player_entryDeposit room) of
                     Inl e \<Rightarrow> (Returned (Inl (DepositRejected e)), m)
                   | Inr _ \<Rightarrow>
                       (let room' = room
                              \<lparr> room_player_eoa := Some formattedEoa,
                                connections :=
                                  (connections room)(formattedEoa \<mapsto> (ws, ''player'')),
                                isReady := True \<rparr>
                        in (Returned (Inr
                              \<lparr> join_roomId = roomId, join_role = ''player'',
                                isRoomReady = True,
                                join_entryDeposit = room_player_entryDeposit room',
                                join_rewardInfo = rewardInfo room' \<rparr>),
                            m\<lparr> rooms := (rooms m)(roomId \<mapsto> room'),
                               addressToRoom :=
                                 (addressToRoom m)(formattedEoa \<mapsto> roomId) \<rparr>)))))"

section \<open>Addresses (utils/validators.js and the library)\<close>

text \<open>\<^verbatim>\<open>isValidEthereumAddress\<close> tests a string against \<^verbatim>\<open>/^0x[a-fA-F0-9]{40}$/\<close>; the handler
  of a join request lets no other string through to \<^verbatim>\<open>joinRoom\<close>.\<close>

definition isHexDigit :: "char \<Rightarrow> bool" where
  "isHexDigit c = (c \<in> set ''0123456789abcdefABCDEF'')"

definition isValidEthereumAddress :: "string \<Rightarrow> bool" where
  "isValidEthereumAddress address =
    (take 2 address = ''0x'' \<and> length (drop 2 address) = 40 \<and>
     list_all isHexDigit (drop 2 address))"

definition isUpperHex :: "char \<Rightarrow> bool" where
  "isUpperHex c = (c \<in> set ''ABCDEF'')"

definition isLowerHex :: "char \<Rightarrow> bool" where
  "isLowerHex c = (c \<in> set ''abcdef'')"

text \<open>\<^verbatim>\<open>toLowerCase\<close> on the characters of such a string.\<close>

definition lowerHexChar :: "char \<Rightarrow> char" where
  "lowerHexChar c =
    (if c = CHR ''A'' then CHR ''a'' else if c = CHR ''B'' then CHR ''b''
     else if c = CHR ''C'' then CHR ''c'' else if c = CHR ''D'' then CHR ''d''
     else if c = CHR ''E'' then CHR ''e'' else if c = CHR ''F'' then CHR ''f''
     else c)"

definition lowerHex :: "string \<Rightarrow> string" where
  "lowerHex s = map lowerHexChar s"

text \<open>
  \<^verbatim>\<open>ethers.getAddress\<close> (version 6 of the library, which the services import) is not a
  part of the repository. On a string of the form above it computes the checksum
  spelling of the address: the forty digits in lower case, with the letters put in
  upper case where a hash of these digits says so (the parameter \<open>checksumCase\<close>). It
  throws when the string has letters of both cases (it matches
  \<^verbatim>\<open>/([A-F].*[a-f])|([a-f].*[A-F])/\<close>) and is not that spelling, and it returns the
  spelling otherwise. What it does with a string of another form is the parameter
  \<open>other\<close>. \<open>None\<close> is a throw.
\<close>

definition ethersGetAddress ::
  "(string \<Rightarrow> string) \<Rightarrow> (string \<Rightarrow> string option) \<Rightarrow> string \<Rightarrow> string option" where
  "ethersGetAddress checksumCase other address =
    (if isValidEthereumAddress address then
       (let result = ''0x'' @ checksumCase (lowerHex (drop 2 address))
        in if list_ex isUpperHex address \<and> list_ex isLowerHex address \<and> result \<noteq> address
           then None
           else Some result)
     else other address)"

section \<open>Sequences of moves and of actions\<close>

definition moveAction :: "string \<Rightarrow> jsnum \<Rightarrow> Action" where
  "moveAction dir n =
    \<lparr> action_type = ''move'',
      action_data = Some \<lparr> data_direction = Some dir, data_distance = Some n,
                           data_objectType = None, data_value = None \<rparr> \<rparr>"





definition completeChunk :: Action where
  "completeChunk = \<lparr> action_type = ''complete_chunk'', action_data = None \<rparr>"

definition loseLife :: Action where
  "loseLife = \<lparr> action_type = ''lose_life'', action_data = None \<rparr>"

text \<open>The actions that the engine carries out and that are not \<^verbatim>\<open>lose_life\<close>.\<close>

definition noLifeLoss :: "Action \<Rightarrow> bool" where
  "noLifeLoss a =
    (action_type a = ''complete_chunk'' \<or> action_type a = ''jump'' \<or>
     ((action_type a = ''move'' \<or> action_type a = ''interact'') \<and> action_data a \<noteq> None))"

definition completions :: "(int \<times> Action) list \<Rightarrow> nat" where
  "completions acts = length (filter (\<lambda>(t, a). action_type a = ''complete_chunk'') acts)"

text \<open>A game of player \<open>k\<close> with all three lives in which the first \<open>j\<close> of the three
  chunks are completed and the others are not.\<close>

definition freshProgress :: "string \<Rightarrow> nat \<Rightarrow> GameState \<Rightarrow> bool" where
  "freshProgress k j g =
    (\<not> isGameOver g \<and> gameResult g = None \<and> eoa (player g) = k \<and>
     lives (player g) = Num 3 \<and>
     currentChunk g = j \<and> map completed (chunks g) = [0 < j, 1 < j, 2 < j])"

definition poolInvariant :: "RewardPool \<Rightarrow> bool" where
  "poolInvariant p = (totalGames p = totalWins p + totalLosses p)"

section \<open>Concrete values\<close>

text \<open>The address of \<^verbatim>\<open>test_lockblock.js\<close> in its checksum form and in lower case, and an
  address without letters. \<open>getAddressTable\<close> is \<^verbatim>\<open>ethers.getAddress\<close> on these three
  strings; it stands for the library function where a concrete one is needed.
  \<open>miscasedAddress\<close> is the first address with its first letter in upper case: it has
  letters of both cases and is not the checksum form.\<close>

definition miscasedAddress :: string where
  "miscasedAddress = ''0xD8dA6BF26964aF9D7eEd9e03E53415D37aA96045''"

definition checksumAddress :: string where
  "checksumAddress = ''0xd8dA6BF26964aF9D7eEd9e03E53415D37aA96045''"

definition lowercaseAddress :: string where
  "lowercaseAddress = ''0xd8da6bf26964af9d7eed9e03e53415d37aa96045''"

definition digitsAddress :: string where
  "digitsAddress = ''0x1111111111111111111111111111111111111111''"

definition getAddressTable :: "string \<Rightarrow> string option" where
  "getAddressTable s =
    (if s = checksumAddress \<or> s = lowercaseAddress then Some checksumAddress
     else if s = digitsAddress then Some digitsAddress
     else None)"

text \<open>A game with one life left whose chunks are all completed and that is not marked
  as over.\<close>

definition tieState :: GameState where
  "tieState =
    \<lparr> player = \<lparr> eoa = checksumAddress, position = \<lparr> pos_x = Num 4, pos_y = Num 0 \<rparr>,
                 lives = Num 1, score = Num 300 \<rparr>,
      chunks = map (\<lambda>c. c\<lparr>completed := True\<rparr>) generateInitialChunks,
      currentChunk = 2, isGameOver = False, gameResult = None,
      startTime = 1000, endTime = None,
      rewardPool_totalAmount = Num 0, entryDeposit = Num (1/4) \<rparr>"

text \<open>A game that was lost.\<close>

definition lostState :: GameState where
  "lostState =
    \<lparr> player = \<lparr> eoa = checksumAddress, position = \<lparr> pos_x = Num 0, pos_y = Num 0 \<rparr>,
                 lives = Num 0, score = Num 110 \<rparr>,
      chunks = generateInitialChunks,
      currentChunk = 0, isGameOver = True, gameResult = Some Lose,
      startTime = 1000, endTime = Some 1500,
      rewardPool_totalAmount = Num 0, entryDeposit = Num (1/4) \<rparr>"


text \<open>The game that \<open>createGame\<close> returns for the lower case address.\<close>

definition freshState :: GameState where
  "freshState =
    \<lparr> player = \<lparr> eoa = checksumAddress, position = \<lparr> pos_x = Num 0, pos_y = Num 0 \<rparr>,
                 lives = Num 3, score = Num 0 \<rparr>,
      chunks = generateInitialChunks,
      currentChunk = 0, isGameOver = False, gameResult = None,
      startTime = 1000, endTime = None,
      rewardPool_totalAmount = Num 0, entryDeposit = Num (1/4) \<rparr>"

definition fundedPool :: RewardPool where
  "fundedPool =
    \<lparr> totalAmount = Num (3/4), totalGames = 5, totalWins = 2, totalLosses = 3,
      lastUpdated = 900 \<rparr>"

definition emptyRoom :: "string \<Rightarrow> Room" where
  "emptyRoom rid =
    \<lparr> room_id = rid, room_player_eoa = None, room_player_entryDeposit = Num (1/4),
      connections = Map.empty, room_gameState = None, isReady = False,
      gameStarted = False, room_difficulty = ''normal'',
      rewardInfo = \<lparr> currentPoolAmount = Num 0, ri_entryDeposit = Num (1/4),
                     potentialWinAmount = Num 0, riskAmount = Num (1/4),
                     poolAfterLoss = Num (1/4) \<rparr>,
      createdAt = 800 \<rparr>"

text \<open>A manager with two rooms that nobody has joined.\<close>

definition twoRooms :: RoomManager where
  "twoRooms =
    \<lparr> rooms = [''room-1'' \<mapsto> emptyRoom ''room-1'', ''room-2'' \<mapsto> emptyRoom ''room-2''],
      addressToRoom = Map.empty \<rparr>"

text \<open>The first room with the player in it, and the manager after the lower case
  address has joined the first room over the connection 7.\<close>

definition occupiedRoom :: Room where
  "occupiedRoom =
    (emptyRoom ''room-1'')
      \<lparr> room_player_eoa := Some checksumAddress,
        connections := [checksumAddress \<mapsto> (7, ''player'')],
        isReady := True \<rparr>"

definition joinedRooms :: RoomManager where
  "joinedRooms =
    \<lparr> rooms = (rooms twoRooms)(''room-1'' \<mapsto> occupiedRoom),
      addressToRoom = [checksumAddress \<mapsto> ''room-1''] \<rparr>"

text \<open>The sum of two finite numbers as a rational number. It is the \<^verbatim>\<open>+\<close> of JavaScript
  numbers on operands such as halves, quarters and small integers, whose sum is a
  binary floating point number as well, and it stands for it where a concrete
  addition is needed.\<close>

fun dyadicAdd :: "jsnum \<Rightarrow> jsnum \<Rightarrow> jsnum" where
  "dyadicAdd (Num a) (Num b) = Num (a + b)"
| "dyadicAdd a b = NaN"


text \<open>Two completed chunks with a move and an interaction in between.\<close>

definition someActions :: "(int \<times> Action) list" where
  "someActions =
    [(2001, completeChunk), (2002, moveAction ''right'' (Num 5)),
     (2003, \<lparr> action_type = ''interact'',
              action_data = Some \<lparr> data_direction = None, data_distance = None,
                                   data_objectType = Some ''coin'',
                                   data_value = Some (Num 10) \<rparr> \<rparr>),
     (2004, completeChunk)]"

text \<open>The checksum spelling of the forty digits of the address of \<^verbatim>\<open>test_lockblock.js\<close>,
  and of digits without letters, which have one spelling only; on these it is the
  function of the library. \<open>ethersTable\<close> is \<open>ethersGetAddress\<close> with it, with every string
  of another form refused.\<close>

definition checksumCaseTable :: "string \<Rightarrow> string" where
  "checksumCaseTable digits =
    (if digits = ''d8da6bf26964af9d7eed9e03e53415d37aa96045''
     then ''d8dA6BF26964aF9D7eEd9e03E53415D37aA96045''
     else digits)"

definition noOtherForm :: "string \<Rightarrow> string option" where
  "noOtherForm s = None"

definition ethersTable :: "string \<Rightarrow> string option" where
  "ethersTable = ethersGetAddress checksumCaseTable noOtherForm"







section \<open>Facts about the numbers\<close>

lemma bitlen_powi_bounds:
  assumes "0 < (n::int)"
  shows "(2::rat) powi (bitlen n - 1) \<le> of_int n" and "(of_int n :: rat) < 2 powi (bitlen n)"
proof -
  from assms have b1: "1 \<le> bitlen n" by (auto simp: bitlen_alt_def)
  from bitlen_bounds [OF assms] have lo: "2 ^ nat (bitlen n - 1) \<le> n" and hi: "n < 2 ^ nat (bitlen n)"
    by simp_all
  have "(2::rat) powi (bitlen n - 1) = 2 ^ nat (bitlen n - 1)"
    using b1 by (simp add: power_int_def)
  also have "\<dots> = of_int (2 ^ nat (bitlen n - 1))" by simp
  also have "\<dots> \<le> of_int n" using lo by (simp only: of_int_le_iff)
  finally show "(2::rat) powi (bitlen n - 1) \<le> of_int n" .
  have "(of_int n :: rat) < of_int (2 ^ nat (bitlen n))" using hi by (simp only: of_int_less_iff)
  also have "\<dots> = 2 ^ nat (bitlen n)" by simp
  also have "\<dots> = 2 powi (bitlen n)" using b1 by (simp add: power_int_def)
  finally show "(of_int n :: rat) < 2 powi (bitlen n)" .
qed

lemma ilog2_bounds:
  assumes "0 < a"
  shows "2 powi (ilog2 a) \<le> a" and "a < 2 powi (ilog2 a + 1)"
proof -
  obtain n d where nd: "quotient_of a = (n, d)" by (cases "quotient_of a")
  then have d: "0 < d" by (rule quotient_of_denom_pos)
  from nd have a: "a = of_int n / of_int d" by (rule quotient_of_div)
  with assms d have n: "0 < n" by (simp add: zero_less_divide_iff)
  let ?k = "bitlen n - bitlen d"
  have dpos: "(0::rat) < of_int d" using d by simp
  have lo: "2 powi (?k - 1) \<le> a"
  proof -
    have "(2::rat) powi (?k - 1) = 2 powi (bitlen n - 1) / 2 powi (bitlen d)"
      by (simp add: power_int_diff flip: diff_diff_eq2 diff_add_eq diff_diff_eq)
    also have "\<dots> \<le> of_int n / 2 powi (bitlen d)"
      using bitlen_powi_bounds(1) [OF n] by (simp add: divide_right_mono)
    also have "\<dots> \<le> of_int n / of_int d"
      using bitlen_powi_bounds(2) [OF d] n dpos by (intro divide_left_mono) (auto intro: mult_pos_pos)
    finally show ?thesis using a by simp
  qed
  have hi: "a < 2 powi (?k + 1)"
  proof -
    have "a = of_int n / of_int d" by (rule a)
    also have "\<dots> < 2 powi (bitlen n) / of_int d"
      using bitlen_powi_bounds(2) [OF n] dpos by (simp add: divide_strict_right_mono)
    also have "\<dots> \<le> 2 powi (bitlen n) / 2 powi (bitlen d - 1)"
      using bitlen_powi_bounds(1) [OF d] dpos by (intro divide_left_mono) (auto intro: mult_pos_pos)
    also have "\<dots> = 2 powi (?k + 1)"
      by (metis (no_types) add.commute add_diff_eq diff_diff_eq2 power_int_diff zero_neq_numeral)
    finally show ?thesis .
  qed
  have il: "ilog2 a = (if 2 powi ?k \<le> a then ?k else ?k - 1)"
    using nd by (simp add: ilog2_def Let_def)
  show "2 powi (ilog2 a) \<le> a" using il lo by auto
  show "a < 2 powi (ilog2 a + 1)" using il hi by (auto simp: not_le)
qed

lemma roundHalfEven_int: "roundHalfEven (of_int m) = m"
  by (simp add: roundHalfEven_def)

text \<open>A number \<open>m * 2^j\<close> with \<open>\<bar>m\<bar> < 2^53\<close> and \<open>-1074 \<le> j \<le> 971\<close> is a double: rounding leaves
  it as it is.\<close>

lemma roundDouble_exact:
  assumes "\<bar>m\<bar> < 2 ^ 53" and "- 1074 \<le> j" and "j \<le> 971"
  shows "roundDouble (of_int m * 2 powi j) = Num (of_int m * 2 powi j)"
proof (cases "m = 0")
  case True
  then show ?thesis by (simp add: roundDouble_def)
next
  case False
  let ?q = "of_int m * 2 powi j :: rat"
  have q0: "?q \<noteq> 0" using False by simp
  have absq: "\<bar>?q\<bar> = of_int \<bar>m\<bar> * 2 powi j" by (simp add: abs_mult)
  have qpos: "0 < \<bar>?q\<bar>" using q0 by simp
  let ?e = "ilog2 \<bar>?q\<bar>"
  let ?p = "max (?e - 52) (- 1074)"
  have below: "\<bar>?q\<bar> < 2 powi (53 + j)"
  proof -
    have "(of_int \<bar>m\<bar> :: rat) < of_int (2 ^ 53)" using assms(1) by (simp only: of_int_less_iff)
    then have "\<bar>?q\<bar> < 2 ^ 53 * 2 powi j" unfolding absq by (simp add: mult_strict_right_mono)
    also have "\<dots> = 2 powi (53 + j)" by (simp add: power_int_add)
    finally show ?thesis .
  qed
  have "2 powi ?e \<le> \<bar>?q\<bar>" using ilog2_bounds(1) [OF qpos] .
  with below have lt: "(2::rat) powi ?e < 2 powi (53 + j)" by simp
  have "?e < 53 + j"
  proof (rule ccontr)
    assume "\<not> ?e < 53 + j"
    then have "53 + j \<le> ?e" by simp
    then have "(2::rat) powi (53 + j) \<le> 2 powi ?e" by (intro power_int_increasing) auto
    with lt show False by simp
  qed
  then have pj: "?p \<le> j" using assms(2) by simp
  define i where "i = nat (j - ?p)"
  have i: "j - ?p = int i" using pj by (simp add: i_def)
  have "?q / 2 powi ?p = of_int m * (2 powi j / 2 powi ?p)" by simp
  also have "2 powi j / (2::rat) powi ?p = 2 powi (j - ?p)"
    by (simp add: power_int_diff)
  also have "\<dots> = 2 ^ i" unfolding i by simp
  finally have scaled: "?q / 2 powi ?p = of_int (m * 2 ^ i)" by simp
  have restored: "of_int (roundHalfEven (?q / 2 powi ?p)) * 2 powi ?p = ?q"
    unfolding scaled roundHalfEven_int
    using scaled by (metis (no_types) nonzero_divide_eq_eq power_int_eq_0_iff zero_neq_numeral)
  from pj assms(3) have "?p \<le> 971" by (rule order_trans)
  then have p971: "\<not> 971 < ?p" by (simp only: not_less)
  have top: "\<not> (?p = 971 \<and> 2 ^ 53 \<le> \<bar>roundHalfEven (?q / 2 powi ?p)\<bar>)"
  proof
    assume h: "?p = 971 \<and> 2 ^ 53 \<le> \<bar>roundHalfEven (?q / 2 powi ?p)\<bar>"
    then have "971 \<le> j" using pj by (simp only:)
    with assms(3) h have "j - ?p = 0" by (simp only:)
    with i have "i = 0" by simp
    with h assms(1) show False unfolding scaled roundHalfEven_int by simp
  qed
  from q0 restored p971 top show ?thesis
    by (simp add: roundDouble_def Let_def)
qed

lemma roundDouble_int:
  assumes "q \<in> \<int>" and "\<bar>q\<bar> < 9007199254740992"
  shows "roundDouble q = Num q"
proof -
  from assms(1) obtain m where m: "q = of_int m" by (auto elim: Ints_cases)
  with assms(2) have "\<bar>m\<bar> < 2 ^ 53"
    by (simp flip: of_int_abs)
  from roundDouble_exact [OF this, of 0] m show ?thesis by simp
qed







section \<open>Facts about the engine\<close>

lemma checkGameOverConditions_fields:
  "player (checkGameOverConditions now u) = player u"
  "chunks (checkGameOverConditions now u) = chunks u"
  "currentChunk (checkGameOverConditions now u) = currentChunk u"
  "gameResult (checkGameOverConditions now u) =
     (if list_all completed (chunks u) then Some Win
      else if js_le0 (lives (player u)) then Some Lose else None)"
  "isGameOver (checkGameOverConditions now u) =
     (list_all completed (chunks u) \<or> js_le0 (lives (player u)))"
  "endTime (checkGameOverConditions now u) =
     (if list_all completed (chunks u) \<or> js_le0 (lives (player u)) then Some now else None)"
  by (simp_all add: checkGameOverConditions_def Let_def)

lemma processAction_returns_checked:
  assumes "fst (processAction getAddress now g a e) = Returned (Inr g')"
  shows "\<exists>u. g' = checkGameOverConditions now u"
  using assms
  by (auto simp: processAction_def split: option.splits if_splits outcome.splits)

lemma getAddressTable_simps:
  "getAddressTable checksumAddress = Some checksumAddress"
  "getAddressTable lowercaseAddress = Some checksumAddress"
  "getAddressTable digitsAddress = Some digitsAddress"
  by (simp_all add: getAddressTable_def checksumAddress_def lowercaseAddress_def
      digitsAddress_def)

lemma generated_chunks_flags:
  "map completed generateInitialChunks = [False, False, False]"
  by (simp add: generateInitialChunks_def)

lemma flags_all: "map completed cs = fs \<Longrightarrow> list_all completed cs = list_all (\<lambda>b. b) fs"
  by (auto simp: list_all_iff)

section \<open>The tie-break of the terminal conditions\<close>

text \<open>
  C1 (as the code has it). When the state after a transition has no lives left and all
  its chunks completed, the evaluation of the terminal conditions reports the result
  win, not lose: the loss check runs first, the win check runs after it whatever the
  first one found, and it overwrites the result. The result lose is reported exactly
  when no lives are left and some chunk is not completed. This holds for the function
  \<open>checkGameOverConditions\<close> and for every state that \<open>processAction\<close> returns.
\<close>

theorem tie_break_reports_win:
  "(js_le0 (lives (player u)) \<and> list_all completed (chunks u) \<longrightarrow>
      gameResult (checkGameOverConditions now u) = Some Win \<and>
      isGameOver (checkGameOverConditions now u)) \<and>
   (fst (processAction getAddress now g a e) = Returned (Inr g') \<and>
      js_le0 (lives (player g')) \<and> list_all completed (chunks g') \<longrightarrow>
      gameResult g' = Some Win \<and> isGameOver g') \<and>
   (gameResult (checkGameOverConditions now u) = Some Lose \<longleftrightarrow>
      js_le0 (lives (player u)) \<and> \<not> list_all completed (chunks u))"
proof -
  have evaluation: "js_le0 (lives (player u)) \<and> list_all completed (chunks u) \<longrightarrow>
      gameResult (checkGameOverConditions now u) = Some Win \<and>
      isGameOver (checkGameOverConditions now u)"
    by (simp add: checkGameOverConditions_fields)
  have returned: "fst (processAction getAddress now g a e) = Returned (Inr g') \<and>
      js_le0 (lives (player g')) \<and> list_all completed (chunks g') \<longrightarrow>
      gameResult g' = Some Win \<and> isGameOver g'"
  proof
    assume h: "fst (processAction getAddress now g a e) = Returned (Inr g') \<and>
      js_le0 (lives (player g')) \<and> list_all completed (chunks g')"
    then obtain v where v: "g' = checkGameOverConditions now v"
      using processAction_returns_checked by blast
    with h show "gameResult g' = Some Win \<and> isGameOver g'"
      by (simp add: checkGameOverConditions_fields)
  qed
  have lose: "gameResult (checkGameOverConditions now u) = Some Lose \<longleftrightarrow>
      js_le0 (lives (player u)) \<and> \<not> list_all completed (chunks u)"
    by (simp add: checkGameOverConditions_fields)
  from evaluation returned lose show ?thesis by blast
qed

lemma tieState_after_lose_life:
  "fst (processAction getAddressTable 2000 tieState loseLife lowercaseAddress)
     = Returned (Inr (checkGameOverConditions 2000 (processLifeLoss tieState)))"
  "lives (player (processLifeLoss tieState)) = Num 0"
  "list_all completed (chunks (processLifeLoss tieState))"
  by (simp_all add: processAction_def getAddressTable_simps tieState_def loseLife_def
      processLifeLoss_def generateInitialChunks_def js_sub_def roundDouble_int)

theorem tie_break_reports_win_witness:
  "js_le0 (lives (player (processLifeLoss tieState))) \<and>
   list_all completed (chunks (processLifeLoss tieState)) \<and>
   fst (processAction getAddressTable 2000 tieState loseLife lowercaseAddress)
     = Returned (Inr (checkGameOverConditions 2000 (processLifeLoss tieState))) \<and>
   gameResult (checkGameOverConditions 2000 (processLifeLoss tieState)) = Some Win \<and>
   isGameOver (checkGameOverConditions 2000 (processLifeLoss tieState))"
  using tie_break_reports_win [of "processLifeLoss tieState" 2000 getAddressTable tieState
      loseLife lowercaseAddress "checkGameOverConditions 2000 (processLifeLoss tieState)"]
    tieState_after_lose_life
  by simp

text \<open>
  The statement that the result is lose whenever both conditions hold fails on the
  code: the player of \<open>tieState\<close> loses the last life while all chunks are completed;
  both conditions hold in the state that \<open>processAction\<close> returns, and its result is
  not lose.
\<close>

theorem tie_break_lose_counterexample:
  "fst (processAction getAddressTable 2000 tieState loseLife lowercaseAddress)
     = Returned (Inr (checkGameOverConditions 2000 (processLifeLoss tieState))) \<and>
   lives (player (checkGameOverConditions 2000 (processLifeLoss tieState))) = Num 0 \<and>
   list_all completed (chunks (checkGameOverConditions 2000 (processLifeLoss tieState))) \<and>
   gameResult (checkGameOverConditions 2000 (processLifeLoss tieState)) \<noteq> Some Lose"
  using tieState_after_lose_life by (simp add: checkGameOverConditions_fields)

section \<open>A game that is over rejects every action\<close>

text \<open>
  C3. On a game state with \<open>isGameOver\<close> set, \<open>processAction\<close> returns the error
  GameOver for every action and every requester that is an address (one that
  \<open>getAddress\<close> accepts), and the object passed in is unchanged after the call. For a
  requester that is not an address the call throws before it reads the state, which
  is unchanged as well.
\<close>

theorem game_over_rejects_every_action:
  assumes "isGameOver g"
  shows "(getAddress e \<noteq> None \<longrightarrow>
            processAction getAddress now g a e = (Returned (Inl GameOver), g)) \<and>
         snd (processAction getAddress now g a e) = g"
  using assms by (auto simp: processAction_def split: option.splits)

theorem game_over_rejects_every_action_witness:
  "isGameOver lostState \<and> getAddressTable lowercaseAddress \<noteq> None \<and>
   processAction getAddressTable 3000 lostState completeChunk lowercaseAddress
     = (Returned (Inl GameOver), lostState)"
proof -
  have over: "isGameOver lostState" by (simp add: lostState_def)
  have addr: "getAddressTable lowercaseAddress \<noteq> None" by (simp add: getAddressTable_simps)
  from game_over_rejects_every_action [of lostState getAddressTable lowercaseAddress 3000
      completeChunk, OF over] over addr
  show ?thesis by simp
qed

section \<open>Withdrawing from the pool\<close>

text \<open>
  C4. \<open>withdrawFromRewardPool\<close> on a pool whose total is at most zero fails with
  EmptyPool and leaves the pool (total and counters) as it is; on a pool whose total
  is above zero it returns the whole total, sets the total to zero and adds one to
  \<open>totalWins\<close> and to \<open>totalGames\<close>, with \<open>totalLosses\<close> unchanged.
\<close>

theorem withdraw_empty_or_whole_pool:
  "(js_le0 (totalAmount p) \<longrightarrow> withdrawFromRewardPool now p = (Inl EmptyPool, p)) \<and>
   (js_gt0 (totalAmount p) \<longrightarrow>
      fst (withdrawFromRewardPool now p)
        = Inr \<lparr> withdrawnAmount = totalAmount p, withdraw_newTotal = Num 0 \<rparr> \<and>
      totalAmount (snd (withdrawFromRewardPool now p)) = Num 0 \<and>
      totalWins (snd (withdrawFromRewardPool now p)) = totalWins p + 1 \<and>
      totalGames (snd (withdrawFromRewardPool now p)) = totalGames p + 1 \<and>
      totalLosses (snd (withdrawFromRewardPool now p)) = totalLosses p)"
  by (cases "totalAmount p") (simp_all add: withdrawFromRewardPool_def Let_def)

theorem withdraw_empty_or_whole_pool_witness:
  "js_le0 (totalAmount (globalRewardPool 0)) \<and>
   withdrawFromRewardPool 5 (globalRewardPool 0) = (Inl EmptyPool, globalRewardPool 0) \<and>
   js_gt0 (totalAmount fundedPool) \<and>
   fst (withdrawFromRewardPool 5 fundedPool)
     = Inr \<lparr> withdrawnAmount = Num (3/4), withdraw_newTotal = Num 0 \<rparr> \<and>
   totalAmount (snd (withdrawFromRewardPool 5 fundedPool)) = Num 0 \<and>
   totalWins (snd (withdrawFromRewardPool 5 fundedPool)) = 3 \<and>
   totalGames (snd (withdrawFromRewardPool 5 fundedPool)) = 6 \<and>
   totalLosses (snd (withdrawFromRewardPool 5 fundedPool)) = 3"
proof -
  have empty: "js_le0 (totalAmount (globalRewardPool 0))"
    by (simp add: globalRewardPool_def)
  have funded: "js_gt0 (totalAmount fundedPool)"
    by (simp add: fundedPool_def)
  have amounts: "totalAmount fundedPool = Num (3/4)" "totalWins fundedPool = 2"
    "totalGames fundedPool = 5" "totalLosses fundedPool = 3"
    by (simp_all add: fundedPool_def)
  from withdraw_empty_or_whole_pool [of "globalRewardPool 0" 5]
    withdraw_empty_or_whole_pool [of fundedPool 5] empty funded amounts
  show ?thesis by simp
qed

section \<open>Deposits into the pool\<close>




section \<open>Completing a chunk\<close>






section \<open>Joining a room\<close>

lemma joinRoom_failure_unchanged:
  "fst (joinRoom getAddress rid e ws m) = Returned (Inl err) \<Longrightarrow>
   snd (joinRoom getAddress rid e ws m) = m"
  by (auto simp: joinRoom_def Let_def split: option.splits if_splits sum.splits)

lemma joinRoom_success_index:
  "fst (joinRoom getAddress rid e ws m) = Returned (Inr res) \<Longrightarrow> getAddress e = Some k \<Longrightarrow>
   addressToRoom (snd (joinRoom getAddress rid e ws m)) k = Some rid"
  by (auto simp: joinRoom_def Let_def split: option.splits if_splits sum.splits)

lemma joinRoom_already:
  "getAddress e = Some k \<Longrightarrow> addressToRoom m k \<noteq> None \<Longrightarrow>
   joinRoom getAddress rid e ws m = (Returned (Inl AlreadyInRoom), m)"
  by (auto simp: joinRoom_def)

text \<open>
  C6. For an identity that \<open>getAddress\<close> formats to the key \<open>k\<close>, \<open>joinRoom\<close> fails with
  AlreadyInRoom when \<open>k\<close> is in the index of addresses, otherwise with RoomNotFound when
  there is no room with the given id, otherwise with RoomOccupied when the room has a
  player; a call that returns an error leaves the manager (the rooms and the index) as
  it was. After a join that succeeded, a join of the same identity to another room
  fails with AlreadyInRoom, changes nothing, and the index still maps \<open>k\<close> to the first
  room.
\<close>

theorem joinRoom_failures:
  assumes "getAddress e = Some k"
  shows "(addressToRoom m k \<noteq> None \<longrightarrow>
            joinRoom getAddress rid e ws m = (Returned (Inl AlreadyInRoom), m)) \<and>
         (addressToRoom m k = None \<and> rooms m rid = None \<longrightarrow>
            joinRoom getAddress rid e ws m = (Returned (Inl RoomNotFound), m)) \<and>
         (addressToRoom m k = None \<and> rooms m rid = Some r \<and> truthy (room_player_eoa r) \<longrightarrow>
            joinRoom getAddress rid e ws m = (Returned (Inl RoomOccupied), m)) \<and>
         (\<forall>err. fst (joinRoom getAddress rid e ws m) = Returned (Inl err) \<longrightarrow>
            snd (joinRoom getAddress rid e ws m) = m) \<and>
         (\<forall>res. fst (joinRoom getAddress rid e ws m) = Returned (Inr res) \<and> rid2 \<noteq> rid \<longrightarrow>
            joinRoom getAddress rid2 e ws2 (snd (joinRoom getAddress rid e ws m))
              = (Returned (Inl AlreadyInRoom), snd (joinRoom getAddress rid e ws m)) \<and>
            addressToRoom (snd (joinRoom getAddress rid e ws m)) k = Some rid)"
proof -
  have 1: "addressToRoom m k \<noteq> None \<longrightarrow>
            joinRoom getAddress rid e ws m = (Returned (Inl AlreadyInRoom), m)"
    using assms by (simp add: joinRoom_def)
  have 2: "addressToRoom m k = None \<and> rooms m rid = None \<longrightarrow>
            joinRoom getAddress rid e ws m = (Returned (Inl RoomNotFound), m)"
    using assms by (simp add: joinRoom_def)
  have 3: "addressToRoom m k = None \<and> rooms m rid = Some r \<and> truthy (room_player_eoa r) \<longrightarrow>
            joinRoom getAddress rid e ws m = (Returned (Inl RoomOccupied), m)"
    using assms by (simp add: joinRoom_def)
  have 4: "\<forall>err. fst (joinRoom getAddress rid e ws m) = Returned (Inl err) \<longrightarrow>
            snd (joinRoom getAddress rid e ws m) = m"
    using joinRoom_failure_unchanged by blast
  have 5: "\<forall>res. fst (joinRoom getAddress rid e ws m) = Returned (Inr res) \<and> rid2 \<noteq> rid \<longrightarrow>
            joinRoom getAddress rid2 e ws2 (snd (joinRoom getAddress rid e ws m))
              = (Returned (Inl AlreadyInRoom), snd (joinRoom getAddress rid e ws m)) \<and>
            addressToRoom (snd (joinRoom getAddress rid e ws m)) k = Some rid"
  proof (intro allI impI, elim conjE)
    fix res assume ok: "fst (joinRoom getAddress rid e ws m) = Returned (Inr res)"
    have idx: "addressToRoom (snd (joinRoom getAddress rid e ws m)) k = Some rid"
      using joinRoom_success_index [OF ok assms] .
    then have "addressToRoom (snd (joinRoom getAddress rid e ws m)) k \<noteq> None" by simp
    from joinRoom_already [of getAddress e k _ rid2 ws2, OF assms this] idx
    show "joinRoom getAddress rid2 e ws2 (snd (joinRoom getAddress rid e ws m))
              = (Returned (Inl AlreadyInRoom), snd (joinRoom getAddress rid e ws m)) \<and>
            addressToRoom (snd (joinRoom getAddress rid e ws m)) k = Some rid"
      by simp
  qed
  from 1 2 3 4 5 show ?thesis by blast
qed

lemma twoRooms_join:
  "fst (joinRoom getAddressTable ''room-1'' lowercaseAddress 7 twoRooms)
     = Returned (Inr \<lparr> join_roomId = ''room-1'', join_role = ''player'', isRoomReady = True,
                       join_entryDeposit = Num (1/4),
                       join_rewardInfo = rewardInfo (emptyRoom ''room-1'') \<rparr>)"
  "snd (joinRoom getAddressTable ''room-1'' lowercaseAddress 7 twoRooms) = joinedRooms"
  by (simp_all add: joinRoom_def getAddressTable_simps twoRooms_def joinedRooms_def
      occupiedRoom_def emptyRoom_def validateEntryDeposit_def Let_def)

lemma joinedRooms_facts:
  "addressToRoom joinedRooms checksumAddress = Some ''room-1''"
  "addressToRoom joinedRooms digitsAddress = None"
  "rooms joinedRooms ''room-1'' = Some occupiedRoom"
  "truthy (room_player_eoa occupiedRoom)"
  by (simp_all add: joinedRooms_def occupiedRoom_def checksumAddress_def digitsAddress_def)

lemma twoRooms_facts:
  "addressToRoom twoRooms checksumAddress = None"
  "rooms twoRooms ''room-9'' = None"
  by (simp_all add: twoRooms_def)

theorem joinRoom_failures_witness:
  "getAddressTable lowercaseAddress = Some checksumAddress \<and>
   getAddressTable digitsAddress = Some digitsAddress \<and>
   fst (joinRoom getAddressTable ''room-1'' lowercaseAddress 7 twoRooms)
     = Returned (Inr \<lparr> join_roomId = ''room-1'', join_role = ''player'', isRoomReady = True,
                       join_entryDeposit = Num (1/4),
                       join_rewardInfo = rewardInfo (emptyRoom ''room-1'') \<rparr>) \<and>
   snd (joinRoom getAddressTable ''room-1'' lowercaseAddress 7 twoRooms) = joinedRooms \<and>
   joinRoom getAddressTable ''room-2'' lowercaseAddress 8 joinedRooms
     = (Returned (Inl AlreadyInRoom), joinedRooms) \<and>
   addressToRoom joinedRooms checksumAddress = Some ''room-1'' \<and>
   joinRoom getAddressTable ''room-9'' lowercaseAddress 7 twoRooms
     = (Returned (Inl RoomNotFound), twoRooms) \<and>
   joinRoom getAddressTable ''room-1'' digitsAddress 9 joinedRooms
     = (Returned (Inl RoomOccupied), joinedRooms)"
proof -
  note a = getAddressTable_simps(2)
  note d = getAddressTable_simps(3)
  have second: "joinRoom getAddressTable ''room-2'' lowercaseAddress 8 joinedRooms
     = (Returned (Inl AlreadyInRoom), joinedRooms)"
    using joinRoom_failures [of getAddressTable lowercaseAddress checksumAddress twoRooms
        "''room-1''" 7 undefined "''room-2''" 8, OF a] twoRooms_join
    by simp
  have missing: "joinRoom getAddressTable ''room-9'' lowercaseAddress 7 twoRooms
     = (Returned (Inl RoomNotFound), twoRooms)"
    using joinRoom_failures [of getAddressTable lowercaseAddress checksumAddress twoRooms
        "''room-9''" 7 undefined "''room-2''" 8, OF a] twoRooms_facts
    by simp
  have occupied: "joinRoom getAddressTable ''room-1'' digitsAddress 9 joinedRooms
     = (Returned (Inl RoomOccupied), joinedRooms)"
    using joinRoom_failures [of getAddressTable digitsAddress digitsAddress joinedRooms
        "''room-1''" 9 occupiedRoom "''room-2''" 8, OF d] joinedRooms_facts
    by simp
  from a d twoRooms_join joinedRooms_facts(1) second missing occupied
  show ?thesis by simp
qed

section \<open>The counters of the pool\<close>

lemma poolInvariant_step: "poolInvariant p \<Longrightarrow> poolInvariant (applyPoolOp fadd op p)"
  by (cases op)
     (simp_all add: poolInvariant_def addToRewardPool_def withdrawFromRewardPool_def
        resetRewardPool_def Let_def)

lemma poolInvariant_ops: "poolInvariant p \<Longrightarrow> poolInvariant (applyPoolOps fadd ops p)"
  by (induction ops arbitrary: p) (simp_all add: poolInvariant_step)

text \<open>
  C7. The equation \<open>totalGames = totalWins + totalLosses\<close> holds in the pool the module
  starts with, each of \<open>addToRewardPool\<close>, \<open>withdrawFromRewardPool\<close> and \<open>resetRewardPool\<close>
  keeps it, and so it holds in the pool after every list of these operations.
\<close>

theorem pool_counter_invariant:
  "poolInvariant (globalRewardPool t0) \<and>
   (poolInvariant p \<longrightarrow>
      poolInvariant (snd (addToRewardPool fadd now amount p)) \<and>
      poolInvariant (snd (withdrawFromRewardPool now p)) \<and>
      poolInvariant (snd (resetRewardPool now p))) \<and>
   poolInvariant (applyPoolOps fadd ops (globalRewardPool t0))"
proof -
  have init: "poolInvariant (globalRewardPool t0)"
    by (simp add: poolInvariant_def globalRewardPool_def)
  have step: "poolInvariant p \<longrightarrow>
      poolInvariant (snd (addToRewardPool fadd now amount p)) \<and>
      poolInvariant (snd (withdrawFromRewardPool now p)) \<and>
      poolInvariant (snd (resetRewardPool now p))"
    using poolInvariant_step [of p fadd "Deposit now amount"]
      poolInvariant_step [of p fadd "Withdraw now"]
      poolInvariant_step [of p fadd "Reset now"]
    by simp
  from init step poolInvariant_ops [OF init] show ?thesis by blast
qed

theorem pool_counter_invariant_witness:
  "poolInvariant fundedPool \<and>
   totalGames (snd (addToRewardPool dyadicAdd 7 (Num (1/4)) fundedPool)) = 6 \<and>
   totalWins (snd (addToRewardPool dyadicAdd 7 (Num (1/4)) fundedPool)) = 2 \<and>
   totalLosses (snd (addToRewardPool dyadicAdd 7 (Num (1/4)) fundedPool)) = 4 \<and>
   poolInvariant (snd (addToRewardPool dyadicAdd 7 (Num (1/4)) fundedPool)) \<and>
   poolInvariant (snd (withdrawFromRewardPool 7 fundedPool)) \<and>
   poolInvariant (snd (resetRewardPool 7 fundedPool)) \<and>
   poolInvariant (applyPoolOps dyadicAdd
     [Deposit 1 (Num (1/4)), Deposit 2 (Num (1/2)), Withdraw 3, Withdraw 4, Reset 5,
      Deposit 6 (Num 2)] (globalRewardPool 0))"
proof -
  have inv: "poolInvariant fundedPool"
    by (simp add: poolInvariant_def fundedPool_def)
  have counters:
    "totalGames (snd (addToRewardPool dyadicAdd 7 (Num (1/4)) fundedPool)) = 6"
    "totalWins (snd (addToRewardPool dyadicAdd 7 (Num (1/4)) fundedPool)) = 2"
    "totalLosses (snd (addToRewardPool dyadicAdd 7 (Num (1/4)) fundedPool)) = 4"
    by (simp_all add: addToRewardPool_def fundedPool_def Let_def)
  from pool_counter_invariant [of 0 fundedPool dyadicAdd 7 "Num (1/4)"
      "[Deposit 1 (Num (1/4)), Deposit 2 (Num (1/2)), Withdraw 3, Withdraw 4, Reset 5,
        Deposit 6 (Num 2)]"] inv counters
  show ?thesis by simp
qed

section \<open>One key for an address\<close>

lemma ethersGetAddress_one_key:
  assumes "isValidEthereumAddress a" and "isValidEthereumAddress b"
    and "lowerHex a = lowerHex b"
    and "ethersGetAddress cc other a = Some k" and "ethersGetAddress cc other b \<noteq> None"
  shows "ethersGetAddress cc other b = Some k"
proof -
  have "drop 2 (lowerHex a) = drop 2 (lowerHex b)"
    using assms(3) by (simp only:)
  then have "lowerHex (drop 2 a) = lowerHex (drop 2 b)"
    by (simp only: lowerHex_def drop_map)
  with assms(1,2,4,5) show ?thesis
    by (simp add: ethersGetAddress_def Let_def split: if_splits)
qed

lemma processAction_accepts:
  assumes "getAddress e = Some (eoa (player g))" and "\<not> isGameOver g"
    and "(action_type act = ''move'' \<and> processMovement g (action_data act) = Returned u) \<or>
         (action_type act = ''jump'' \<and> processJump g (action_data act) = Returned u) \<or>
         (action_type act = ''interact'' \<and> processInteraction g (action_data act) = Returned u) \<or>
         (action_type act = ''complete_chunk'' \<and> processChunkCompletion g = Returned u) \<or>
         (action_type act = ''lose_life'' \<and> processLifeLoss g = u)"
  shows "fst (processAction getAddress now g act e) = Returned (Inr (checkGameOverConditions now u))"
  using assms by (auto simp: processAction_def)

lemma rejected_address_throws:
  assumes "getAddress c = None"
  shows "joinRoom getAddress rid c ws m = (Threw BadAddress, m)"
    and "processAction getAddress now g act c = (Threw BadAddress, g)"
  using assms by (simp_all add: joinRoom_def processAction_def)

text \<open>
  C8 (as the code has it). The manager and the engine use the key that
  \<^verbatim>\<open>ethers.getAddress\<close> returns and nothing else of the string they are given. For two
  spellings \<open>a\<close> and \<open>b\<close> of an address (\<^verbatim>\<open>0x\<close> and forty hexadecimal digits) that differ
  only in the case of their letters and that the library both accepts, the key is the
  same: after a join with \<open>a\<close> that succeeded, a join with \<open>b\<close> to any room fails with
  AlreadyInRoom and changes nothing, and on a game of that key that is going on,
  \<open>processAction\<close> carries out the action of the requester \<open>b\<close>. The library does not
  accept every spelling: a string it refuses (letters of both cases that are not the
  checksum spelling) makes \<open>joinRoom\<close> and \<open>processAction\<close> throw, with the manager and
  the game unchanged, so that there are never two players for one address.
\<close>

theorem case_variants_one_key:
  assumes "isValidEthereumAddress a" and "isValidEthereumAddress b"
    and "lowerHex a = lowerHex b"
    and "ethersGetAddress cc other a = Some k" and "ethersGetAddress cc other b \<noteq> None"
  shows "ethersGetAddress cc other b = Some k \<and>
     (\<forall>res. fst (joinRoom (ethersGetAddress cc other) rid a ws m) = Returned (Inr res) \<longrightarrow>
        joinRoom (ethersGetAddress cc other) rid2 b ws2
            (snd (joinRoom (ethersGetAddress cc other) rid a ws m))
          = (Returned (Inl AlreadyInRoom),
             snd (joinRoom (ethersGetAddress cc other) rid a ws m))) \<and>
     (\<forall>u. eoa (player g) = k \<and> \<not> isGameOver g \<and>
        ((action_type act = ''move'' \<and> processMovement g (action_data act) = Returned u) \<or>
         (action_type act = ''jump'' \<and> processJump g (action_data act) = Returned u) \<or>
         (action_type act = ''interact'' \<and> processInteraction g (action_data act) = Returned u) \<or>
         (action_type act = ''complete_chunk'' \<and> processChunkCompletion g = Returned u) \<or>
         (action_type act = ''lose_life'' \<and> processLifeLoss g = u)) \<longrightarrow>
        fst (processAction (ethersGetAddress cc other) now g act b)
          = Returned (Inr (checkGameOverConditions now u))) \<and>
     (\<forall>c. ethersGetAddress cc other c = None \<longrightarrow>
        joinRoom (ethersGetAddress cc other) rid c ws m = (Threw BadAddress, m) \<and>
        processAction (ethersGetAddress cc other) now g act c = (Threw BadAddress, g))"
proof -
  let ?G = "ethersGetAddress cc other"
  have key: "?G b = Some k"
    using ethersGetAddress_one_key [OF assms] .
  have join: "\<forall>res. fst (joinRoom ?G rid a ws m) = Returned (Inr res) \<longrightarrow>
        joinRoom ?G rid2 b ws2 (snd (joinRoom ?G rid a ws m))
          = (Returned (Inl AlreadyInRoom), snd (joinRoom ?G rid a ws m))"
  proof (intro allI impI)
    fix res assume ok: "fst (joinRoom ?G rid a ws m) = Returned (Inr res)"
    have "addressToRoom (snd (joinRoom ?G rid a ws m)) k \<noteq> None"
      using joinRoom_success_index [where getAddress = ?G and e = a and k = k, OF ok assms(4)]
      by simp
    from joinRoom_already [where getAddress = ?G and e = b and k = k and rid = rid2
        and ws = ws2, OF key this]
    show "joinRoom ?G rid2 b ws2 (snd (joinRoom ?G rid a ws m))
          = (Returned (Inl AlreadyInRoom), snd (joinRoom ?G rid a ws m))" .
  qed
  have engine: "\<forall>u. eoa (player g) = k \<and> \<not> isGameOver g \<and>
        ((action_type act = ''move'' \<and> processMovement g (action_data act) = Returned u) \<or>
         (action_type act = ''jump'' \<and> processJump g (action_data act) = Returned u) \<or>
         (action_type act = ''interact'' \<and> processInteraction g (action_data act) = Returned u) \<or>
         (action_type act = ''complete_chunk'' \<and> processChunkCompletion g = Returned u) \<or>
         (action_type act = ''lose_life'' \<and> processLifeLoss g = u)) \<longrightarrow>
        fst (processAction ?G now g act b) = Returned (Inr (checkGameOverConditions now u))"
  proof (intro allI impI, elim conjE)
    fix u
    assume own: "eoa (player g) = k" and going: "\<not> isGameOver g"
      and kinds: "(action_type act = ''move'' \<and> processMovement g (action_data act) = Returned u) \<or>
         (action_type act = ''jump'' \<and> processJump g (action_data act) = Returned u) \<or>
         (action_type act = ''interact'' \<and> processInteraction g (action_data act) = Returned u) \<or>
         (action_type act = ''complete_chunk'' \<and> processChunkCompletion g = Returned u) \<or>
         (action_type act = ''lose_life'' \<and> processLifeLoss g = u)"
    from key own have "?G b = Some (eoa (player g))" by simp
    from processAction_accepts [where getAddress = ?G and e = b, OF this going kinds]
    show "fst (processAction ?G now g act b) = Returned (Inr (checkGameOverConditions now u))" .
  qed
  have refused: "\<forall>c. ?G c = None \<longrightarrow>
        joinRoom ?G rid c ws m = (Threw BadAddress, m) \<and>
        processAction ?G now g act c = (Threw BadAddress, g)"
    using rejected_address_throws [where getAddress = ?G] by blast
  from key join engine refused show ?thesis by (intro conjI)
qed

lemma ethersTable_values:
  "isValidEthereumAddress lowercaseAddress"
  "isValidEthereumAddress checksumAddress"
  "isValidEthereumAddress miscasedAddress"
  "lowerHex lowercaseAddress = lowerHex checksumAddress"
  "lowerHex checksumAddress = lowerHex miscasedAddress"
  "ethersGetAddress checksumCaseTable noOtherForm lowercaseAddress = Some checksumAddress"
  "ethersGetAddress checksumCaseTable noOtherForm checksumAddress = Some checksumAddress"
  "ethersGetAddress checksumCaseTable noOtherForm miscasedAddress = None"
  by (simp_all add: ethersGetAddress_def isValidEthereumAddress_def isHexDigit_def
      isUpperHex_def isLowerHex_def lowerHex_def lowerHexChar_def checksumCaseTable_def
      lowercaseAddress_def checksumAddress_def miscasedAddress_def Let_def)

lemma twoRooms_join_ethers:
  "fst (joinRoom ethersTable ''room-1'' lowercaseAddress 7 twoRooms)
     = Returned (Inr \<lparr> join_roomId = ''room-1'', join_role = ''player'', isRoomReady = True,
                       join_entryDeposit = Num (1/4),
                       join_rewardInfo = rewardInfo (emptyRoom ''room-1'') \<rparr>)"
  "snd (joinRoom ethersTable ''room-1'' lowercaseAddress 7 twoRooms) = joinedRooms"
  "fst (joinRoom ethersTable ''room-1'' checksumAddress 7 twoRooms)
     = Returned (Inr \<lparr> join_roomId = ''room-1'', join_role = ''player'', isRoomReady = True,
                       join_entryDeposit = Num (1/4),
                       join_rewardInfo = rewardInfo (emptyRoom ''room-1'') \<rparr>)"
  "snd (joinRoom ethersTable ''room-1'' checksumAddress 7 twoRooms) = joinedRooms"
  by (simp_all add: joinRoom_def ethersTable_def ethersTable_values twoRooms_def
      joinedRooms_def occupiedRoom_def emptyRoom_def validateEntryDeposit_def Let_def)

theorem case_variants_one_key_witness:
  "isValidEthereumAddress lowercaseAddress \<and> isValidEthereumAddress checksumAddress \<and>
   lowerHex lowercaseAddress = lowerHex checksumAddress \<and>
   lowercaseAddress \<noteq> checksumAddress \<and>
   ethersTable lowercaseAddress = Some checksumAddress \<and>
   ethersTable checksumAddress = Some checksumAddress \<and>
   fst (joinRoom ethersTable ''room-1'' lowercaseAddress 7 twoRooms)
     = Returned (Inr \<lparr> join_roomId = ''room-1'', join_role = ''player'', isRoomReady = True,
                       join_entryDeposit = Num (1/4),
                       join_rewardInfo = rewardInfo (emptyRoom ''room-1'') \<rparr>) \<and>
   joinRoom ethersTable ''room-2'' checksumAddress 8 joinedRooms
     = (Returned (Inl AlreadyInRoom), joinedRooms) \<and>
   eoa (player freshState) = checksumAddress \<and> \<not> isGameOver freshState \<and>
   fst (processAction ethersTable 2000 freshState loseLife checksumAddress)
     = Returned (Inr (checkGameOverConditions 2000 (processLifeLoss freshState)))"
proof -
  have differ: "lowercaseAddress \<noteq> checksumAddress"
    by (simp add: checksumAddress_def lowercaseAddress_def)
  have game: "eoa (player freshState) = checksumAddress" "\<not> isGameOver freshState"
    "action_type loseLife = ''lose_life''"
    by (simp_all add: freshState_def loseLife_def)
  have accepted: "ethersGetAddress checksumCaseTable noOtherForm checksumAddress \<noteq> None"
    by (simp add: ethersTable_values)
  from case_variants_one_key [where a = lowercaseAddress and b = checksumAddress
      and cc = checksumCaseTable and other = noOtherForm and k = checksumAddress
      and rid = "''room-1''" and ws = 7 and m = twoRooms and ?rid2.0 = "''room-2''" and ?ws2.0 = 8
      and g = freshState and act = loseLife and now = 2000,
      OF ethersTable_values(1,2,4,6) accepted]
    twoRooms_join_ethers ethersTable_values differ game
  show ?thesis by (auto simp: ethersTable_def)
qed

text \<open>
  Not every pair of spellings that differ only in the case of their letters gives
  one key: \<open>miscasedAddress\<close> differs from the checksum spelling in the case of one
  letter, and after a join with the checksum spelling, a join with it does not fail
  with AlreadyInRoom but throws, and \<open>processAction\<close> on the game of that address
  throws for this requester instead of carrying out the action.
\<close>

theorem case_variants_counterexample:
  "isValidEthereumAddress checksumAddress \<and> isValidEthereumAddress miscasedAddress \<and>
   lowerHex checksumAddress = lowerHex miscasedAddress \<and>
   fst (joinRoom ethersTable ''room-1'' checksumAddress 7 twoRooms)
     = Returned (Inr \<lparr> join_roomId = ''room-1'', join_role = ''player'', isRoomReady = True,
                       join_entryDeposit = Num (1/4),
                       join_rewardInfo = rewardInfo (emptyRoom ''room-1'') \<rparr>) \<and>
   snd (joinRoom ethersTable ''room-1'' checksumAddress 7 twoRooms) = joinedRooms \<and>
   joinRoom ethersTable ''room-2'' miscasedAddress 8 joinedRooms
     = (Threw BadAddress, joinedRooms) \<and>
   fst (joinRoom ethersTable ''room-2'' miscasedAddress 8 joinedRooms)
     \<noteq> Returned (Inl AlreadyInRoom) \<and>
   eoa (player freshState) = checksumAddress \<and> \<not> isGameOver freshState \<and>
   processAction ethersTable 2000 freshState loseLife miscasedAddress
     = (Threw BadAddress, freshState)"
  using twoRooms_join_ethers(3,4) ethersTable_values
  by (simp add: joinRoom_def processAction_def ethersTable_def freshState_def)

section \<open>Sequences of moves\<close>











section \<open>A fresh game\<close>

lemma applyActions_append:
  "applyActions getAddress g (xs @ ys) e =
    (case applyActions getAddress g xs e of
       Returned (Inr g') \<Rightarrow> applyActions getAddress g' ys e
     | Returned (Inl err) \<Rightarrow> Returned (Inl err)
     | Threw x \<Rightarrow> Threw x)"
proof (induction xs arbitrary: g)
  case Nil
  then show ?case by simp
next
  case (Cons p xs)
  obtain t a where p: "p = (t, a)" by (cases p)
  show ?case
    using Cons.IH p by (simp split: outcome.splits sum.splits)
qed

lemma flags_length: "map completed cs = [a, b, c] \<Longrightarrow> length cs = 3"
  by (metis length_map length_Cons list.size(3) numeral_3_eq_3)

lemma flags_update:
  "map completed (cs[i := (cs ! i)\<lparr>completed := True\<rparr>]) = (map completed cs)[i := True]"
  by (simp add: map_update)

lemma other_step:
  assumes "freshProgress k j g" and "j \<le> 2" and "getAddress e = Some k"
    and "noLifeLoss a" and "action_type a \<noteq> ''complete_chunk''"
  shows "\<exists>g1. fst (processAction getAddress t g a e) = Returned (Inr g1) \<and> freshProgress k j g1"
proof -
  have notall: "\<not> list_all completed (chunks g)"
    using assms(1,2) flags_all [of "chunks g" "[0 < j, 1 < j, 2 < j]"]
    by (simp add: freshProgress_def)
  show ?thesis
    using assms notall
    by (auto simp: processAction_def noLifeLoss_def freshProgress_def processMovement_def
        processJump_def processInteraction_def Let_def checkGameOverConditions_fields
        checkGameOverConditions_def)
qed

lemma complete_step:
  assumes "freshProgress k j g" and "j \<le> 2" and "getAddress e = Some k"
    and "action_type a = ''complete_chunk''"
  shows "\<exists>g1. fst (processAction getAddress t g a e) = Returned (Inr g1) \<and>
     (if j < 2 then freshProgress k (j + 1) g1
      else isGameOver g1 \<and> gameResult g1 = Some Win)"
proof -
  have fl: "map completed (chunks g) = [0 < j, 1 < j, 2 < j]"
    using assms(1) by (simp add: freshProgress_def)
  have len: "length (chunks g) = 3"
    using flags_length [OF fl] .
  let ?cs = "(chunks g)[j := (chunks g ! j)\<lparr>completed := True\<rparr>]"
  have fl': "map completed ?cs = [0 < j + 1, 1 < j + 1, 2 < j + 1]"
  proof -
    have "j = 0 \<or> j = 1 \<or> j = 2" using assms(2) by auto
    then show ?thesis using fl by (auto simp: flags_update numeral_2_eq_2)
  qed
  have all': "list_all completed ?cs = (j = 2)"
    using flags_all [OF fl'] assms(2) by auto
  have cur: "currentChunk g = j" and own: "eoa (player g) = k" and
    notover: "\<not> isGameOver g" and l3: "lives (player g) = Num 3"
    using assms(1) by (simp_all add: freshProgress_def)
  show ?thesis
    using assms(2,3,4) len fl' all' cur own notover l3
    by (auto simp: processAction_def processChunkCompletion_def Let_def freshProgress_def
        checkGameOverConditions_fields checkGameOverConditions_def)
qed

lemma run_before_win:
  assumes "getAddress e = Some k"
  shows "freshProgress k j g \<Longrightarrow> list_all (\<lambda>(t, a). noLifeLoss a) acts \<Longrightarrow>
    j + completions acts \<le> 2 \<Longrightarrow>
    \<exists>g'. applyActions getAddress g acts e = Returned (Inr g') \<and>
      freshProgress k (j + completions acts) g'"
proof (induction acts arbitrary: g j)
  case Nil
  then show ?case by (simp add: completions_def)
next
  case (Cons p acts)
  obtain t a where p: "p = (t, a)" by (cases p)
  from Cons.prems(2) p have ok: "noLifeLoss a" and rest: "list_all (\<lambda>(t, a). noLifeLoss a) acts"
    by simp_all
  show ?case
  proof (cases "action_type a = ''complete_chunk''")
    case True
    then have cnt: "completions (p # acts) = Suc (completions acts)"
      using p by (simp add: completions_def)
    with Cons.prems(3) have j: "j < 2" "j \<le> 2" and j': "(j + 1) + completions acts \<le> 2" by simp_all
    from complete_step [where getAddress = getAddress and e = e and k = k and g = g and j = j
        and a = a and t = t, OF Cons.prems(1) j(2) assms True] j(1)
    obtain g1 where g1: "fst (processAction getAddress t g a e) = Returned (Inr g1)"
      and fp: "freshProgress k (j + 1) g1" by auto
    from Cons.IH [OF fp rest j'] obtain g' where
      "applyActions getAddress g1 acts e = Returned (Inr g')"
      "freshProgress k (j + 1 + completions acts) g'" by blast
    with g1 p cnt show ?thesis by simp
  next
    case False
    then have cnt: "completions (p # acts) = completions acts"
      using p by (simp add: completions_def)
    with Cons.prems(3) have j: "j \<le> 2" and j': "j + completions acts \<le> 2" by simp_all
    from other_step [where getAddress = getAddress and e = e and k = k and g = g and j = j
        and a = a and t = t, OF Cons.prems(1) j assms ok False]
    obtain g1 where g1: "fst (processAction getAddress t g a e) = Returned (Inr g1)"
      and fp: "freshProgress k j g1" by auto
    from Cons.IH [OF fp rest j'] obtain g' where
      "applyActions getAddress g1 acts e = Returned (Inr g')"
      "freshProgress k (j + completions acts) g'" by blast
    with g1 p cnt show ?thesis by simp
  qed
qed

lemma createGame_fresh:
  "getAddress e = Some k \<Longrightarrow> createGame getAddress t0 e dep pool = Returned g0 \<Longrightarrow>
   freshProgress k 0 g0"
  by (auto simp: createGame_def freshProgress_def generateInitialChunks_def)

text \<open>
  C10. For a player that is an address, \<open>createGame\<close> returns a game with 3 lives, score
  0, position (0,0), \<open>currentChunk\<close> 0, not over, with no result, and with exactly three
  chunks, none of them completed. From it, a list of actions without \<^verbatim>\<open>lose_life\<close> that
  has at most two \<^verbatim>\<open>complete_chunk\<close> actions leaves the game going on with no result,
  and the third \<^verbatim>\<open>complete_chunk\<close> action ends it with the result win.
\<close>

theorem fresh_game_wins_after_three:
  assumes "getAddress e = Some k"
  shows "\<exists>g0. createGame getAddress t0 e dep pool = Returned g0 \<and>
      lives (player g0) = Num 3 \<and> score (player g0) = Num 0 \<and>
      position (player g0) = \<lparr> pos_x = Num 0, pos_y = Num 0 \<rparr> \<and>
      currentChunk g0 = 0 \<and> \<not> isGameOver g0 \<and> gameResult g0 = None \<and>
      map completed (chunks g0) = [False, False, False] \<and>
      (list_all (\<lambda>(t, a). noLifeLoss a) acts \<and> completions acts \<le> 2 \<longrightarrow>
         (\<exists>g. applyActions getAddress g0 acts e = Returned (Inr g) \<and>
              \<not> isGameOver g \<and> gameResult g = None)) \<and>
      (list_all (\<lambda>(t, a). noLifeLoss a) acts \<and> completions acts = 2 \<longrightarrow>
         (\<exists>g. applyActions getAddress g0 (acts @ [(t3, completeChunk)]) e = Returned (Inr g) \<and>
              isGameOver g \<and> gameResult g = Some Win))"
proof -
  obtain g0 where g0: "createGame getAddress t0 e dep pool = Returned g0"
    using assms by (simp add: createGame_def)
  have fresh: "freshProgress k 0 g0"
    using createGame_fresh [where getAddress = getAddress and e = e and k = k, OF assms g0] .
  have fields: "lives (player g0) = Num 3 \<and> score (player g0) = Num 0 \<and>
      position (player g0) = \<lparr> pos_x = Num 0, pos_y = Num 0 \<rparr> \<and>
      currentChunk g0 = 0 \<and> \<not> isGameOver g0 \<and> gameResult g0 = None \<and>
      map completed (chunks g0) = [False, False, False]"
    using g0 assms by (auto simp: createGame_def generateInitialChunks_def)
  have before: "list_all (\<lambda>(t, a). noLifeLoss a) acts \<and> completions acts \<le> 2 \<longrightarrow>
         (\<exists>g. applyActions getAddress g0 acts e = Returned (Inr g) \<and>
              \<not> isGameOver g \<and> gameResult g = None)"
  proof
    assume h: "list_all (\<lambda>(t, a). noLifeLoss a) acts \<and> completions acts \<le> 2"
    then have "0 + completions acts \<le> 2" by simp
    from run_before_win [where getAddress = getAddress and e = e and k = k and g = g0
        and j = 0 and acts = acts, OF assms fresh conjunct1 [OF h] this]
    show "\<exists>g. applyActions getAddress g0 acts e = Returned (Inr g) \<and>
              \<not> isGameOver g \<and> gameResult g = None"
      by (auto simp: freshProgress_def)
  qed
  have third: "list_all (\<lambda>(t, a). noLifeLoss a) acts \<and> completions acts = 2 \<longrightarrow>
         (\<exists>g. applyActions getAddress g0 (acts @ [(t3, completeChunk)]) e = Returned (Inr g) \<and>
              isGameOver g \<and> gameResult g = Some Win)"
  proof
    assume h: "list_all (\<lambda>(t, a). noLifeLoss a) acts \<and> completions acts = 2"
    then have "0 + completions acts \<le> 2" by simp
    from run_before_win [where getAddress = getAddress and e = e and k = k and g = g0
        and j = 0 and acts = acts, OF assms fresh conjunct1 [OF h] this] h
    obtain g2 where run: "applyActions getAddress g0 acts e = Returned (Inr g2)"
      and fp: "freshProgress k 2 g2" by (auto simp: numeral_2_eq_2)
    have ct: "action_type completeChunk = ''complete_chunk''" by (simp add: completeChunk_def)
    from complete_step [where getAddress = getAddress and e = e and k = k and g = g2 and j = 2
        and a = completeChunk and t = t3, OF fp _ assms ct]
    obtain g3 where "fst (processAction getAddress t3 g2 completeChunk e) = Returned (Inr g3)"
      and "isGameOver g3 \<and> gameResult g3 = Some Win" by auto
    with run show "\<exists>g. applyActions getAddress g0 (acts @ [(t3, completeChunk)]) e = Returned (Inr g) \<and>
              isGameOver g \<and> gameResult g = Some Win"
      by (simp add: applyActions_append)
  qed
  from g0 fields before third show ?thesis
    by (intro exI [of _ g0] conjI) (elim conjE, assumption)+
qed

lemma someActions_facts:
  "list_all (\<lambda>(t, a). noLifeLoss a) someActions"
  "completions someActions = 2"
  by (simp_all add: someActions_def noLifeLoss_def completions_def completeChunk_def
      moveAction_def)

lemma createGame_freshState:
  "createGame getAddressTable 1000 lowercaseAddress (Num (1/4)) (Num 0) = Returned freshState"
  by (simp add: createGame_def getAddressTable_simps freshState_def)

theorem fresh_game_wins_after_three_witness:
  "getAddressTable lowercaseAddress = Some checksumAddress \<and>
   list_all (\<lambda>(t, a). noLifeLoss a) someActions \<and> completions someActions = 2 \<and>
   createGame getAddressTable 1000 lowercaseAddress (Num (1/4)) (Num 0) = Returned freshState \<and>
   (\<exists>g. applyActions getAddressTable freshState someActions lowercaseAddress = Returned (Inr g) \<and>
        \<not> isGameOver g \<and> gameResult g = None) \<and>
   (\<exists>g. applyActions getAddressTable freshState (someActions @ [(2005, completeChunk)])
          lowercaseAddress = Returned (Inr g) \<and>
        isGameOver g \<and> gameResult g = Some Win)"
  using fresh_game_wins_after_three [where getAddress = getAddressTable
      and e = lowercaseAddress and k = checksumAddress and ?t0.0 = 1000 and dep = "Num (1/4)"
      and pool = "Num 0" and acts = someActions and ?t3.0 = 2005,
      OF getAddressTable_simps(2)]
    someActions_facts createGame_freshState getAddressTable_simps(2)
  by auto

end
